theory Spec2Isabelle
  imports Complex_Main
begin

section \<open>The burstable rate limiter of node/RateLimiter.hpp\<close>

text \<open>
  The class \<open>RateLimiter\<close> keeps a credit balance that accrues with the clock and is
  debited by every gated transfer. Its fields and the fields of \<open>Limit\<close> are C++
  \<open>double\<close>s. The class is modelled twice.

  The first model follows the specification, which types all of these as real numbers:
  a \<open>double\<close> is a real number, the arithmetic is exact, and \<open>fmin\<close> and \<open>fmax\<close> are
  the minimum and maximum of two reals. It carries the results about order, clamping
  and the clock, which rounding to nearest leaves as they are on finite values, and
  the evaluation at inputs where the arithmetic of the code is exact.

  The second model, further down, computes in IEEE 754 binary64 with rounding,
  infinities and NaN. It carries the results that depend on what an addition, a
  subtraction or a multiplication of the code returns.

  The clock \<open>Utils::nowf()\<close> is declared in \<open>Utils.hpp\<close>. Every method reads it once;
  the value it returns at that read is the first argument \<open>nowf\<close> of the method's model.
\<close>

type_synonym double = real

definition fmin :: "double \<Rightarrow> double \<Rightarrow> double" where
  "fmin x y = min x y"

definition fmax :: "double \<Rightarrow> double \<Rightarrow> double" where
  "fmax x y = max x y"

record Limit =
  bytesPerSecond :: double
  maxBalance :: double
  minBalance :: double

record RateLimiter =
  lastTime :: double
  balance :: double

text \<open>
  The default constructor leaves both fields as they are, so an uninitialized limiter
  is any value of the record. The constructor with a preload is \<open>init\<close>.
\<close>

definition init :: "double \<Rightarrow> double \<Rightarrow> RateLimiter \<Rightarrow> RateLimiter" where
  "init nowf preload s = (s\<lparr>lastTime := nowf\<rparr>)\<lparr>balance := preload\<rparr>"

definition updateBalance :: "double \<Rightarrow> Limit \<Rightarrow> RateLimiter \<Rightarrow> double \<times> RateLimiter" where
  "updateBalance nowf lmt s =
     (let lt = lastTime s;
          s1 = s\<lparr>lastTime := nowf\<rparr>;
          now = lastTime s1;
          s2 = s1\<lparr>balance := fmin (maxBalance lmt) (balance s1 + bytesPerSecond lmt * (now - lt))\<rparr>
      in (balance s2, s2))"

definition gate :: "double \<Rightarrow> Limit \<Rightarrow> double \<Rightarrow> RateLimiter \<Rightarrow> bool \<times> RateLimiter" where
  "gate nowf lmt bytes s =
     (let (b, s1) = updateBalance nowf lmt s;
          allow = (b \<ge> bytes);
          s2 = s1\<lparr>balance := fmax (minBalance lmt) (balance s1 - bytes)\<rparr>
      in (allow, s2))"

section \<open>Sequences of calls on one instance\<close>

text \<open>
  A call on a limiter is one of the three methods with its arguments and with the value
  the clock returns when the method reads it. The \<open>Limit\<close> is passed with every call
  and is not stored, so it may differ from one call to the next.
\<close>

datatype call =
    Init double double
  | UpdateBalance double Limit
  | Gate double Limit double

datatype returned = Void | Double double | Bool bool

fun clock_of :: "call \<Rightarrow> double" where
  "clock_of (Init nowf preload) = nowf"
| "clock_of (UpdateBalance nowf lmt) = nowf"
| "clock_of (Gate nowf lmt bytes) = nowf"

fun step :: "call \<Rightarrow> RateLimiter \<Rightarrow> returned \<times> RateLimiter" where
  "step (Init nowf preload) s = (Void, init nowf preload s)"
| "step (UpdateBalance nowf lmt) s = (let (b, s') = updateBalance nowf lmt s in (Double b, s'))"
| "step (Gate nowf lmt bytes) s = (let (a, s') = gate nowf lmt bytes s in (Bool a, s'))"

text \<open>\<open>run s cs\<close> lists, for every call of \<open>cs\<close> in order, what it returned and the
  state it left.\<close>

fun run :: "RateLimiter \<Rightarrow> call list \<Rightarrow> (returned \<times> RateLimiter) list" where
  "run s [] = []"
| "run s (c # cs) = (let (r, s') = step c s in (r, s') # run s' cs)"

definition in_bounds :: "Limit \<Rightarrow> RateLimiter \<Rightarrow> bool" where
  "in_bounds lmt s = (minBalance lmt \<le> balance s \<and> balance s \<le> maxBalance lmt)"

text \<open>An \<open>init\<close> call, or a \<open>gate\<close> call evaluated against the limit \<open>lmt\<close>.\<close>

fun init_or_gate_against :: "Limit \<Rightarrow> call \<Rightarrow> bool" where
  "init_or_gate_against lmt (Init nowf preload) = True"
| "init_or_gate_against lmt (UpdateBalance nowf l) = False"
| "init_or_gate_against lmt (Gate nowf l bytes) = (l = lmt)"

text \<open>The calls after which the floor is stated: every \<open>gate\<close>, and an \<open>init\<close> whose
  preload is not below the floor.\<close>

fun floor_kept :: "Limit \<Rightarrow> call \<Rightarrow> bool" where
  "floor_kept lmt (Init nowf preload) = (minBalance lmt \<le> preload)"
| "floor_kept lmt (UpdateBalance nowf l) = False"
| "floor_kept lmt (Gate nowf l bytes) = True"

text \<open>The calls after which the ceiling is stated: a \<open>gate\<close> whose \<open>bytes\<close> are not
  negative, and an \<open>init\<close> whose preload is not above the ceiling.\<close>

fun ceiling_kept :: "Limit \<Rightarrow> call \<Rightarrow> bool" where
  "ceiling_kept lmt (Init nowf preload) = (preload \<le> maxBalance lmt)"
| "ceiling_kept lmt (UpdateBalance nowf l) = False"
| "ceiling_kept lmt (Gate nowf l bytes) = (0 \<le> bytes)"

text \<open>The limit of the specification's concrete scenarios: 100 bytes per second,
  ceiling 1000, floor -500.\<close>

definition scenario_limit :: Limit where
  "scenario_limit = \<lparr>bytesPerSecond = 100, maxBalance = 1000, minBalance = - 500\<rparr>"

section \<open>The same methods in binary64 arithmetic\<close>

text \<open>
  A \<open>double\<close> is a finite real number, an infinity or NaN. A finite field holds a
  representable number: one that \<open>round64\<close> returns unchanged. The two zeros are one
  value here: they compare equal, and the class has no division and no sign test
  that could tell them apart.

  Every arithmetic operation of the class is taken to round its exact result once, to
  the nearest binary64 number with ties to the even significand, as the default
  rounding mode does when the compiler evaluates in \<open>double\<close> and does not fuse the
  multiplication with the addition.
\<close>

datatype binary64 = Finite real | PInf | NInf | NaN

text \<open>\<open>exponent64 a\<close>, for \<open>a \<ge> 0\<close>, is the exponent \<open>e\<close> with \<open>2^e \<le> a < 2^(e+1)\<close>, kept
  between -1022 (below it the numbers are subnormal and share the spacing of the
  smallest normal ones) and 1024. The two searches walk from exponent 0; their fuel
  is the distance to the end of the range.\<close>

fun search_up :: "nat \<Rightarrow> int \<Rightarrow> real \<Rightarrow> int" where
  "search_up 0 e a = e"
| "search_up (Suc n) e a = (if 2 powi (e + 1) \<le> a then search_up n (e + 1) a else e)"

fun search_down :: "nat \<Rightarrow> int \<Rightarrow> real \<Rightarrow> int" where
  "search_down 0 e a = e"
| "search_down (Suc n) e a = (if a < 2 powi e then search_down n (e - 1) a else e)"

definition exponent64 :: "real \<Rightarrow> int" where
  "exponent64 a = (if 1 \<le> a then search_up 1024 0 a else search_down 1022 0 a)"

definition round_half_even :: "real \<Rightarrow> int" where
  "round_half_even q =
     (let f = \<lfloor>q\<rfloor>; d = q - of_int f
      in if d < 1 / 2 then f else if 1 / 2 < d then f + 1 else if even f then f else f + 1)"

text \<open>Rounding to the binary64 grid: the spacing at exponent \<open>e\<close> is \<open>2^(e - 52)\<close>.\<close>

definition rne64 :: "real \<Rightarrow> real" where
  "rne64 z = (let u = 2 powi (exponent64 \<bar>z\<bar> - 52) in of_int (round_half_even (z / u)) * u)"

text \<open>The rounded result of an operation: it overflows to an infinity when the grid
  value reaches \<open>2^1024\<close>.\<close>

definition round64 :: "real \<Rightarrow> binary64" where
  "round64 z =
     (let y = rne64 z
      in if 2 powi 1024 \<le> \<bar>y\<bar> then (if 0 < y then PInf else NInf) else Finite y)"

definition exact64 :: "real \<Rightarrow> bool" where
  "exact64 z = (round64 z = Finite z)"

fun add64 :: "binary64 \<Rightarrow> binary64 \<Rightarrow> binary64" where
  "add64 (Finite x) (Finite y) = round64 (x + y)"
| "add64 NaN y = NaN"
| "add64 x NaN = NaN"
| "add64 PInf NInf = NaN"
| "add64 NInf PInf = NaN"
| "add64 PInf y = PInf"
| "add64 x PInf = PInf"
| "add64 NInf y = NInf"
| "add64 x NInf = NInf"

fun sub64 :: "binary64 \<Rightarrow> binary64 \<Rightarrow> binary64" where
  "sub64 (Finite x) (Finite y) = round64 (x - y)"
| "sub64 NaN y = NaN"
| "sub64 x NaN = NaN"
| "sub64 PInf PInf = NaN"
| "sub64 NInf NInf = NaN"
| "sub64 PInf y = PInf"
| "sub64 x PInf = NInf"
| "sub64 NInf y = NInf"
| "sub64 x NInf = PInf"

fun signed_inf :: "bool \<Rightarrow> binary64" where
  "signed_inf positive = (if positive then PInf else NInf)"

fun mul64 :: "binary64 \<Rightarrow> binary64 \<Rightarrow> binary64" where
  "mul64 (Finite x) (Finite y) = round64 (x * y)"
| "mul64 NaN y = NaN"
| "mul64 x NaN = NaN"
| "mul64 (Finite x) PInf = (if x = 0 then NaN else signed_inf (0 < x))"
| "mul64 (Finite x) NInf = (if x = 0 then NaN else signed_inf (x < 0))"
| "mul64 PInf (Finite y) = (if y = 0 then NaN else signed_inf (0 < y))"
| "mul64 NInf (Finite y) = (if y = 0 then NaN else signed_inf (y < 0))"
| "mul64 PInf PInf = PInf"
| "mul64 PInf NInf = NInf"
| "mul64 NInf PInf = NInf"
| "mul64 NInf NInf = PInf"

text \<open>\<open>le64 x y\<close> is the comparison \<open>x <= y\<close> of the code; it is false when either side
  is NaN. \<open>fmin\<close> and \<open>fmax\<close> of \<open>math.h\<close> return the other argument when one is NaN.\<close>

fun le64 :: "binary64 \<Rightarrow> binary64 \<Rightarrow> bool" where
  "le64 (Finite x) (Finite y) = (x \<le> y)"
| "le64 NaN y = False"
| "le64 x NaN = False"
| "le64 NInf y = True"
| "le64 x PInf = True"
| "le64 PInf y = False"
| "le64 x NInf = False"

fun fmin64 :: "binary64 \<Rightarrow> binary64 \<Rightarrow> binary64" where
  "fmin64 NaN y = y"
| "fmin64 x NaN = x"
| "fmin64 x y = (if le64 x y then x else y)"

fun fmax64 :: "binary64 \<Rightarrow> binary64 \<Rightarrow> binary64" where
  "fmax64 NaN y = y"
| "fmax64 x NaN = x"
| "fmax64 x y = (if le64 x y then y else x)"

record Limit64 =
  bytesPerSecond64 :: binary64
  maxBalance64 :: binary64
  minBalance64 :: binary64

record RateLimiter64 =
  lastTime64 :: binary64
  balance64 :: binary64

definition updateBalance64 ::
  "binary64 \<Rightarrow> Limit64 \<Rightarrow> RateLimiter64 \<Rightarrow> binary64 \<times> RateLimiter64" where
  "updateBalance64 nowf lmt s =
     (let lt = lastTime64 s;
          s1 = s\<lparr>lastTime64 := nowf\<rparr>;
          now = lastTime64 s1;
          s2 = s1\<lparr>balance64 := fmin64 (maxBalance64 lmt)
                  (add64 (balance64 s1) (mul64 (bytesPerSecond64 lmt) (sub64 now lt)))\<rparr>
      in (balance64 s2, s2))"

definition gate64 ::
  "binary64 \<Rightarrow> Limit64 \<Rightarrow> binary64 \<Rightarrow> RateLimiter64 \<Rightarrow> bool \<times> RateLimiter64" where
  "gate64 nowf lmt bytes s =
     (let (b, s1) = updateBalance64 nowf lmt s;
          allow = le64 bytes b;
          s2 = s1\<lparr>balance64 := fmax64 (minBalance64 lmt) (sub64 (balance64 s1) bytes)\<rparr>
      in (allow, s2))"

text \<open>The limit of the concrete scenarios again, in binary64.\<close>

definition scenario_limit64 :: Limit64 where
  "scenario_limit64 =
     \<lparr>bytesPerSecond64 = Finite 100, maxBalance64 = Finite 1000, minBalance64 = Finite (- 500)\<rparr>"

section \<open>Single calls\<close>

lemma updateBalance_result:
  "updateBalance nowf lmt s =
     (min (maxBalance lmt) (balance s + bytesPerSecond lmt * (nowf - lastTime s)),
      \<lparr>lastTime = nowf,
       balance = min (maxBalance lmt) (balance s + bytesPerSecond lmt * (nowf - lastTime s))\<rparr>)"
  by (simp add: updateBalance_def fmin_def Let_def)

lemma gate_result:
  "gate nowf lmt bytes s =
     (bytes \<le> fst (updateBalance nowf lmt s),
      \<lparr>lastTime = nowf,
       balance = max (minBalance lmt) (fst (updateBalance nowf lmt s) - bytes)\<rparr>)"
  by (simp add: gate_def updateBalance_result fmax_def Let_def)

text \<open>
  C2. The verdict of \<open>gate\<close> is true exactly when the balance returned by the refresh,
  before the debit, is at least \<open>bytes\<close>.
\<close>

theorem gate_verdict_iff_refreshed_ge_bytes:
  "fst (gate nowf lmt bytes s) = (fst (updateBalance nowf lmt s) \<ge> bytes)"
  by (simp add: gate_result)

text \<open>
  C5. \<open>init\<close> stores the preload as the balance, unclamped, and the clock reading as
  the last update time, whatever the limiter held before; a later \<open>init\<close> does the
  same again.
\<close>

theorem init_overrides_state:
  "init nowf x s = \<lparr>lastTime = nowf, balance = x\<rparr> \<and>
   init nowf' y (init nowf x s) = \<lparr>lastTime = nowf', balance = y\<rparr>"
  by (simp add: init_def)

text \<open>
  C9. One \<open>gate\<close> call leaves the balance at or above the floor of the limit it was
  given, from every state. With \<open>bytes = 0\<close>, a refreshed balance below the floor is
  raised to the floor; in particular a preload below the floor, gated at the clock
  reading of its \<open>init\<close>, becomes the floor.
\<close>

theorem gate_establishes_floor:
  "minBalance lmt \<le> balance (snd (gate nowf lmt bytes s)) \<and>
   (fst (updateBalance nowf lmt s) < minBalance lmt \<longrightarrow>
      balance (snd (gate nowf lmt 0 s)) = minBalance lmt) \<and>
   (preload < minBalance lmt \<longrightarrow>
      balance (snd (gate nowf lmt 0 (init nowf preload s))) = minBalance lmt)"
  by (simp add: gate_result updateBalance_result init_def)

theorem gate_establishes_floor_witness:
  "(- 500::real) \<le> balance (snd (gate 0 scenario_limit 0
       (init 0 (- 2000) \<lparr>lastTime = 7, balance = 5000\<rparr>))) \<and>
   fst (updateBalance 0 scenario_limit (init 0 (- 2000) \<lparr>lastTime = 7, balance = 5000\<rparr>))
     < minBalance scenario_limit \<and>
   - 2000 < minBalance scenario_limit \<and>
   balance (snd (gate 0 scenario_limit 0
       (init 0 (- 2000) \<lparr>lastTime = 7, balance = 5000\<rparr>))) = - 500"
  using gate_establishes_floor
    [of scenario_limit 0 0 "init 0 (- 2000) \<lparr>lastTime = 7, balance = 5000\<rparr>" "- 2000"]
  by (simp add: scenario_limit_def init_def updateBalance_result)

text \<open>
  C10. The debit has no upper clamp. Under the limit with rate 100, ceiling 1000 and
  floor -500, a limiter whose refreshed balance is the ceiling 1000 and which is gated
  with -1 bytes admits the transfer and is left with balance 1001, above the ceiling;
  the refresh of the next call, one second later, brings the balance back to 1000.
\<close>

theorem gate_credit_exceeds_ceiling:
  "minBalance scenario_limit \<le> 0 \<and> 0 \<le> maxBalance scenario_limit \<and>
   fst (updateBalance 0 scenario_limit \<lparr>lastTime = 0, balance = 1000\<rparr>) =
     maxBalance scenario_limit \<and>
   gate 0 scenario_limit (- 1) \<lparr>lastTime = 0, balance = 1000\<rparr> =
     (True, \<lparr>lastTime = 0, balance = 1001\<rparr>) \<and>
   maxBalance scenario_limit <
     balance (snd (gate 0 scenario_limit (- 1) \<lparr>lastTime = 0, balance = 1000\<rparr>)) \<and>
   updateBalance 1 scenario_limit
       (snd (gate 0 scenario_limit (- 1) \<lparr>lastTime = 0, balance = 1000\<rparr>)) =
     (1000, \<lparr>lastTime = 1, balance = 1000\<rparr>)"
  by (simp add: gate_result updateBalance_result scenario_limit_def)

text \<open>
  C6. Under a limit whose ceiling is not above its floor, the balance after \<open>gate\<close> is
  at or above the floor. When \<open>bytes\<close> is not negative it is exactly the floor, so it
  lies within both bounds exactly when ceiling and floor coincide. When the ceiling is
  strictly below the floor, the balance after \<open>gate\<close> is strictly above the ceiling.
\<close>

theorem gate_inverted_limit_rests_on_floor:
  assumes "maxBalance lmt \<le> minBalance lmt"
  shows "minBalance lmt \<le> balance (snd (gate nowf lmt bytes s)) \<and>
         (0 \<le> bytes \<longrightarrow>
            balance (snd (gate nowf lmt bytes s)) = minBalance lmt \<and>
            in_bounds lmt (snd (gate nowf lmt bytes s)) = (maxBalance lmt = minBalance lmt)) \<and>
         (maxBalance lmt < minBalance lmt \<longrightarrow>
            maxBalance lmt < balance (snd (gate nowf lmt bytes s)))"
proof -
  have floor: "minBalance lmt \<le> balance (snd (gate nowf lmt bytes s))"
    by (simp add: gate_result)
  have exact: "balance (snd (gate nowf lmt bytes s)) = minBalance lmt" if "0 \<le> bytes"
    using that assms by (simp add: gate_result updateBalance_result max_def min_def)
  have "in_bounds lmt (snd (gate nowf lmt bytes s)) = (maxBalance lmt = minBalance lmt)"
    if "0 \<le> bytes"
    using exact [OF that] assms by (auto simp add: in_bounds_def)
  with floor exact assms show ?thesis by auto
qed

text \<open>Ceiling 100 below floor 200: the balance rests on 200, outside the bounds.
  Ceiling and floor both 100: the balance rests on 100, within them.\<close>

theorem gate_inverted_limit_witness:
  "maxBalance \<lparr>bytesPerSecond = 100, maxBalance = 100, minBalance = 200\<rparr>
     \<le> minBalance \<lparr>bytesPerSecond = 100, maxBalance = 100, minBalance = 200\<rparr> \<and>
   maxBalance \<lparr>bytesPerSecond = 100, maxBalance = 100, minBalance = 200\<rparr>
     < minBalance \<lparr>bytesPerSecond = 100, maxBalance = 100, minBalance = 200\<rparr> \<and>
   (0::real) \<le> 50 \<and>
   balance (snd (gate 0 \<lparr>bytesPerSecond = 100, maxBalance = 100, minBalance = 200\<rparr>
                50 \<lparr>lastTime = 0, balance = 0\<rparr>)) = 200 \<and>
   \<not> in_bounds \<lparr>bytesPerSecond = 100, maxBalance = 100, minBalance = 200\<rparr>
       (snd (gate 0 \<lparr>bytesPerSecond = 100, maxBalance = 100, minBalance = 200\<rparr>
                50 \<lparr>lastTime = 0, balance = 0\<rparr>)) \<and>
   maxBalance \<lparr>bytesPerSecond = 100, maxBalance = 100, minBalance = 100\<rparr>
     \<le> minBalance \<lparr>bytesPerSecond = 100, maxBalance = 100, minBalance = 100\<rparr> \<and>
   balance (snd (gate 0 \<lparr>bytesPerSecond = 100, maxBalance = 100, minBalance = 100\<rparr>
                50 \<lparr>lastTime = 0, balance = 0\<rparr>)) = 100 \<and>
   in_bounds \<lparr>bytesPerSecond = 100, maxBalance = 100, minBalance = 100\<rparr>
       (snd (gate 0 \<lparr>bytesPerSecond = 100, maxBalance = 100, minBalance = 100\<rparr>
                50 \<lparr>lastTime = 0, balance = 0\<rparr>))"
  using gate_inverted_limit_rests_on_floor
    [where lmt = "\<lparr>bytesPerSecond = 100, maxBalance = 100, minBalance = 200\<rparr>"
       and nowf = 0 and bytes = 50 and s = "\<lparr>lastTime = 0, balance = 0\<rparr>"]
    gate_inverted_limit_rests_on_floor
    [where lmt = "\<lparr>bytesPerSecond = 100, maxBalance = 100, minBalance = 100\<rparr>"
       and nowf = 0 and bytes = 50 and s = "\<lparr>lastTime = 0, balance = 0\<rparr>"]
  by simp

text \<open>With ceiling 100 and floor 200, a \<open>gate\<close> of 50 bytes on an empty balance leaves
  200, which is above the ceiling. With ceiling and floor both 100, a \<open>gate\<close> of -1 bytes
  on a balance of 100 leaves 101.\<close>

theorem gate_inverted_limit_counterexample:
  "\<not> maxBalance \<lparr>bytesPerSecond = 100, maxBalance = 100, minBalance = 200\<rparr>
       > minBalance \<lparr>bytesPerSecond = 100, maxBalance = 100, minBalance = 200\<rparr> \<and>
   \<not> balance (snd (gate 0 \<lparr>bytesPerSecond = 100, maxBalance = 100, minBalance = 200\<rparr> 50
                     \<lparr>lastTime = 0, balance = 0\<rparr>))
       \<le> maxBalance \<lparr>bytesPerSecond = 100, maxBalance = 100, minBalance = 200\<rparr> \<and>
   \<not> maxBalance \<lparr>bytesPerSecond = 100, maxBalance = 100, minBalance = 100\<rparr>
       > minBalance \<lparr>bytesPerSecond = 100, maxBalance = 100, minBalance = 100\<rparr> \<and>
   \<not> balance (snd (gate 0 \<lparr>bytesPerSecond = 100, maxBalance = 100, minBalance = 100\<rparr> (- 1)
                     \<lparr>lastTime = 0, balance = 100\<rparr>))
       \<le> maxBalance \<lparr>bytesPerSecond = 100, maxBalance = 100, minBalance = 100\<rparr>"
  by (simp add: gate_result updateBalance_result)

section \<open>Sequences\<close>

lemma step_eq:
  "step (UpdateBalance nowf lmt) s =
     (Double (fst (updateBalance nowf lmt s)), snd (updateBalance nowf lmt s))"
  "step (Gate nowf lmt bytes) s =
     (Bool (fst (gate nowf lmt bytes s)), snd (gate nowf lmt bytes s))"
  by (simp_all add: case_prod_beta)

lemma run_Cons: "run s (c # cs) = step c s # run (snd (step c s)) cs"
  by (simp add: case_prod_beta)

lemma lastTime_step: "lastTime (snd (step c s)) = clock_of c"
  by (cases c)
    (simp_all add: step_eq init_def gate_result updateBalance_result del: step.simps(2,3))

lemma run_clock: "map (lastTime \<circ> snd) (run s cs) = map clock_of cs"
  by (induction cs arbitrary: s) (simp_all add: run_Cons lastTime_step del: run.simps(2))

lemma step_bounds:
  assumes "minBalance lmt \<le> maxBalance lmt" and "init_or_gate_against lmt c"
  shows "(floor_kept lmt c \<longrightarrow> minBalance lmt \<le> balance (snd (step c s))) \<and>
         (ceiling_kept lmt c \<longrightarrow> balance (snd (step c s)) \<le> maxBalance lmt)"
proof (cases c)
  case (Init nowf preload)
  then show ?thesis by (simp add: init_def)
next
  case (UpdateBalance nowf l)
  with assms(2) show ?thesis by simp
next
  case (Gate nowf l bytes)
  with assms(2) have l: "l = lmt" by simp
  have "minBalance lmt \<le> balance (snd (gate nowf lmt bytes s))"
    by (simp add: gate_result)
  moreover have "balance (snd (gate nowf lmt bytes s)) \<le> maxBalance lmt" if "0 \<le> bytes"
    using that assms(1) by (simp add: gate_result updateBalance_result)
  ultimately show ?thesis using Gate l by (simp add: step_eq del: step.simps(2,3))
qed

lemma run_bounds:
  assumes "minBalance lmt \<le> maxBalance lmt"
  shows "list_all (init_or_gate_against lmt) cs \<Longrightarrow>
         list_all (\<lambda>(c, r, s').
             (floor_kept lmt c \<longrightarrow> minBalance lmt \<le> balance s') \<and>
             (ceiling_kept lmt c \<longrightarrow> balance s' \<le> maxBalance lmt))
           (zip cs (run s cs))"
proof (induction cs arbitrary: s)
  case Nil
  then show ?case by simp
next
  case (Cons c cs)
  obtain r s' where st: "step c s = (r, s')" by (cases "step c s")
  from Cons.prems have "init_or_gate_against lmt c" by simp
  from step_bounds [OF assms this, of s] st
  have here: "(floor_kept lmt c \<longrightarrow> minBalance lmt \<le> balance s') \<and>
              (ceiling_kept lmt c \<longrightarrow> balance s' \<le> maxBalance lmt)"
    by simp
  from Cons.prems have "list_all (init_or_gate_against lmt) cs" by simp
  from Cons.IH [OF this, of s'] here st show ?case by simp
qed

text \<open>
  C1. Fix a limit with rate at least 0, floor at most 0 and ceiling at least 0, and take
  any sequence of \<open>init\<close> and \<open>gate\<close> calls against it, from any starting state and
  with any clock readings. After every \<open>gate\<close> call, and after every \<open>init\<close> whose
  preload is not below the floor, the balance is at or above the floor. After every
  \<open>gate\<close> call with non-negative \<open>bytes\<close>, and after every \<open>init\<close> whose preload is not
  above the ceiling, the balance is at or below the ceiling. Each holds whatever the
  other calls of the sequence were.
\<close>

theorem bound_invariant_after_each_call:
  assumes "0 \<le> bytesPerSecond lmt" and "minBalance lmt \<le> 0" and "0 \<le> maxBalance lmt"
    and "list_all (init_or_gate_against lmt) cs"
  shows "list_all (\<lambda>(c, r, s').
             (floor_kept lmt c \<longrightarrow> minBalance lmt \<le> balance s') \<and>
             (ceiling_kept lmt c \<longrightarrow> balance s' \<le> maxBalance lmt))
           (zip cs (run s cs))"
proof -
  from assms(2,3) have "minBalance lmt \<le> maxBalance lmt" by simp
  then show ?thesis using assms(4) by (rule run_bounds)
qed

text \<open>A sequence with an oversized preload, a negative \<open>bytes\<close> and an undersized
  preload: the calls next to them are bounded all the same.\<close>

theorem bound_invariant_witness:
  "0 \<le> bytesPerSecond scenario_limit \<and> minBalance scenario_limit \<le> 0 \<and>
   0 \<le> maxBalance scenario_limit \<and>
   list_all (init_or_gate_against scenario_limit)
     [Init 0 2000, Gate 0 scenario_limit 50, Gate 0 scenario_limit (- 1), Init 1 (- 1000),
      Gate 1 scenario_limit 0] \<and>
   map (\<lambda>c. (floor_kept scenario_limit c, ceiling_kept scenario_limit c))
     [Init 0 2000, Gate 0 scenario_limit 50, Gate 0 scenario_limit (- 1), Init 1 (- 1000),
      Gate 1 scenario_limit 0] =
     [(True, False), (True, True), (True, False), (False, True), (True, True)] \<and>
   map (balance \<circ> snd) (run \<lparr>lastTime = 7, balance = 5000\<rparr>
     [Init 0 2000, Gate 0 scenario_limit 50, Gate 0 scenario_limit (- 1), Init 1 (- 1000),
      Gate 1 scenario_limit 0]) =
     [2000, 950, 951, - 1000, - 500] \<and>
   list_all (\<lambda>(c, r, s').
       (floor_kept scenario_limit c \<longrightarrow> minBalance scenario_limit \<le> balance s') \<and>
       (ceiling_kept scenario_limit c \<longrightarrow> balance s' \<le> maxBalance scenario_limit))
     (zip [Init 0 2000, Gate 0 scenario_limit 50, Gate 0 scenario_limit (- 1), Init 1 (- 1000),
           Gate 1 scenario_limit 0]
        (run \<lparr>lastTime = 7, balance = 5000\<rparr>
          [Init 0 2000, Gate 0 scenario_limit 50, Gate 0 scenario_limit (- 1), Init 1 (- 1000),
           Gate 1 scenario_limit 0]))"
proof -
  have h: "0 \<le> bytesPerSecond scenario_limit" "minBalance scenario_limit \<le> 0"
    "0 \<le> maxBalance scenario_limit"
    "list_all (init_or_gate_against scenario_limit)
      [Init 0 2000, Gate 0 scenario_limit 50, Gate 0 scenario_limit (- 1), Init 1 (- 1000),
       Gate 1 scenario_limit 0]"
    by (simp_all add: scenario_limit_def)
  have vals: "map (balance \<circ> snd) (run \<lparr>lastTime = 7, balance = 5000\<rparr>
     [Init 0 2000, Gate 0 scenario_limit 50, Gate 0 scenario_limit (- 1), Init 1 (- 1000),
      Gate 1 scenario_limit 0]) =
     [2000, 950, 951, - 1000, - 500]"
    by (simp add: init_def gate_result updateBalance_result scenario_limit_def)
  have flags: "map (\<lambda>c. (floor_kept scenario_limit c, ceiling_kept scenario_limit c))
     [Init 0 2000, Gate 0 scenario_limit 50, Gate 0 scenario_limit (- 1), Init 1 (- 1000),
      Gate 1 scenario_limit 0] =
     [(True, False), (True, True), (True, False), (False, True), (True, True)]"
    by (simp add: scenario_limit_def)
  from bound_invariant_after_each_call [OF h, of "\<lparr>lastTime = 7, balance = 5000\<rparr>"] h vals flags
  show ?thesis by blast
qed

text \<open>After the other calls a bound can fail: \<open>init(2000)\<close> leaves 2000 above the
  ceiling 1000, \<open>init(1000)\<close> followed at once by \<open>gate\<close> of -1 bytes leaves 1001, and
  \<open>init(-1000)\<close> leaves -1000 below the floor -500.\<close>

theorem bound_invariant_counterexample:
  "0 \<le> bytesPerSecond scenario_limit \<and> minBalance scenario_limit \<le> 0 \<and>
   0 \<le> maxBalance scenario_limit \<and>
   list_all (init_or_gate_against scenario_limit) [Init 0 2000] \<and>
   \<not> list_all (in_bounds scenario_limit)
       (map snd (run \<lparr>lastTime = 0, balance = 0\<rparr> [Init 0 2000])) \<and>
   list_all (init_or_gate_against scenario_limit) [Init 0 1000, Gate 0 scenario_limit (- 1)] \<and>
   \<not> list_all (in_bounds scenario_limit)
       (map snd (run \<lparr>lastTime = 0, balance = 0\<rparr> [Init 0 1000, Gate 0 scenario_limit (- 1)])) \<and>
   list_all (init_or_gate_against scenario_limit) [Init 0 (- 1000)] \<and>
   \<not> list_all (in_bounds scenario_limit)
       (map snd (run \<lparr>lastTime = 0, balance = 0\<rparr> [Init 0 (- 1000)]))"
  by (simp add: scenario_limit_def in_bounds_def init_def gate_result updateBalance_result)

lemma gate_oversized:
  assumes "maxBalance lmt < bytes" and "maxBalance lmt - bytes \<le> minBalance lmt"
  shows "gate nowf lmt bytes s = (False, \<lparr>lastTime = nowf, balance = minBalance lmt\<rparr>)"
  using assms by (simp add: gate_result updateBalance_result max_def min_def)

lemma run_oversized:
  assumes "maxBalance lmt < bytes" and "maxBalance lmt - bytes \<le> minBalance lmt"
  shows "list_all (\<lambda>(r, s'). r = Bool False \<and> balance s' = minBalance lmt)
           (run s (map (\<lambda>t. Gate t lmt bytes) ts))"
  using assms
  by (induction ts arbitrary: s)
    (simp_all add: run_Cons step_eq gate_oversized del: run.simps(2) step.simps(2,3))

text \<open>
  C7. Under the limit with rate 100, ceiling 1000 and floor -500, starting from a balance
  of at most 1000, any number of \<open>gate\<close> calls of 10000 bytes, each at the clock reading
  already stored (no time elapses), all return false, and each of them, the first
  included, leaves the balance at exactly -500.
\<close>

theorem gate_tight_loop_converges_to_floor:
  assumes "balance s \<le> 1000"
  shows "list_all (\<lambda>(r, s'). r = Bool False \<and> balance s' = - 500)
           (run s (replicate n (Gate (lastTime s) scenario_limit 10000)))"
proof -
  have "list_all (\<lambda>(r, s'). r = Bool False \<and> balance s' = minBalance scenario_limit)
          (run s (map (\<lambda>t. Gate t scenario_limit 10000) (replicate n (lastTime s))))"
    by (rule run_oversized) (simp_all add: scenario_limit_def)
  then show ?thesis by (simp add: scenario_limit_def)
qed

theorem gate_tight_loop_witness:
  "balance \<lparr>lastTime = 21, balance = 1\<rparr> \<le> 1000 \<and>
   run \<lparr>lastTime = 21, balance = 1\<rparr> (replicate 3 (Gate 21 scenario_limit 10000)) =
     [(Bool False, \<lparr>lastTime = 21, balance = - 500\<rparr>),
      (Bool False, \<lparr>lastTime = 21, balance = - 500\<rparr>),
      (Bool False, \<lparr>lastTime = 21, balance = - 500\<rparr>)]"
  using gate_tight_loop_converges_to_floor [of "\<lparr>lastTime = 21, balance = 1\<rparr>" 3]
  by (simp add: numeral_3_eq_3 gate_result updateBalance_result scenario_limit_def)

text \<open>
  C8. In every sequence of \<open>init\<close>, \<open>updateBalance\<close> and \<open>gate\<close> calls on one limiter,
  with any limits, whose clock readings never decrease, the last update times stored
  after the calls never decrease.
\<close>

theorem lastTime_nondecreasing:
  assumes "sorted (map clock_of cs)"
  shows "sorted (map (lastTime \<circ> snd) (run s cs))"
  using assms by (simp add: run_clock)

theorem lastTime_nondecreasing_witness:
  "sorted (map clock_of [Init 0 0, UpdateBalance 0 scenario_limit, Gate 1 scenario_limit 30,
                          Gate 21 scenario_limit 999]) \<and>
   sorted (map (lastTime \<circ> snd) (run \<lparr>lastTime = 7, balance = 5000\<rparr>
             [Init 0 0, UpdateBalance 0 scenario_limit, Gate 1 scenario_limit 30,
              Gate 21 scenario_limit 999]))"
proof -
  have h: "sorted (map clock_of [Init 0 0, UpdateBalance 0 scenario_limit,
             Gate 1 scenario_limit 30, Gate 21 scenario_limit 999])"
    by simp
  from lastTime_nondecreasing [OF h] h show ?thesis by blast
qed

section \<open>Rounded arithmetic\<close>

lemma search_up_correct:
  "e0 \<le> e \<Longrightarrow> e - e0 \<le> int n \<Longrightarrow> 2 powi e \<le> a \<Longrightarrow> a < 2 powi (e + 1) \<Longrightarrow>
   search_up n e0 a = e"
proof (induction n arbitrary: e0)
  case 0
  then show ?case by simp
next
  case (Suc n)
  show ?case
  proof (cases "e0 = e")
    case True
    with Suc.prems show ?thesis by simp
  next
    case False
    with Suc.prems have lt: "e0 + 1 \<le> e" by simp
    then have "(2::real) powi (e0 + 1) \<le> 2 powi e"
      by (intro power_int_increasing) simp_all
    with Suc.prems have "2 powi (e0 + 1) \<le> a" by linarith
    moreover from lt Suc.prems have "search_up n (e0 + 1) a = e"
      by (intro Suc.IH) simp_all
    ultimately show ?thesis by simp
  qed
qed

lemma search_down_correct:
  "e \<le> e0 \<Longrightarrow> e0 - e \<le> int n \<Longrightarrow> 2 powi e \<le> a \<Longrightarrow> a < 2 powi (e + 1) \<Longrightarrow>
   search_down n e0 a = e"
proof (induction n arbitrary: e0)
  case 0
  then show ?case by simp
next
  case (Suc n)
  show ?case
  proof (cases "e0 = e")
    case True
    with Suc.prems show ?thesis by simp
  next
    case False
    with Suc.prems have lt: "e + 1 \<le> e0" by simp
    then have "(2::real) powi (e + 1) \<le> 2 powi e0"
      by (intro power_int_increasing) simp_all
    with Suc.prems have "a < 2 powi e0" by linarith
    moreover from lt Suc.prems have "search_down n (e0 - 1) a = e"
      by (intro Suc.IH) simp_all
    ultimately show ?thesis by simp
  qed
qed

lemma search_down_clamp:
  "a < 2 powi (e0 - int n) \<Longrightarrow> search_down n e0 a = e0 - int n"
proof (induction n arbitrary: e0)
  case 0
  then show ?case by simp
next
  case (Suc n)
  have "(2::real) powi (e0 - int (Suc n)) \<le> 2 powi e0"
    by (intro power_int_increasing) simp_all
  with Suc.prems have "a < 2 powi e0" by linarith
  moreover from Suc.prems have "search_down n (e0 - 1) a = e0 - 1 - int n"
    by (intro Suc.IH) (simp add: algebra_simps)
  ultimately show ?case by simp
qed

lemma exponent64_eq:
  assumes "2 powi e \<le> a" and "a < 2 powi (e + 1)" and "- 1022 \<le> e" and "e \<le> 1023"
  shows "exponent64 a = e"
proof (cases "1 \<le> a")
  case True
  have "0 \<le> e"
  proof (rule ccontr)
    assume "\<not> 0 \<le> e"
    then have "e + 1 \<le> 0" by simp
    then have "(2::real) powi (e + 1) \<le> 2 powi 0"
      by (intro power_int_increasing) simp_all
    with assms(2) True show False by simp
  qed
  with assms have "search_up 1024 0 a = e"
    by (intro search_up_correct) simp_all
  with True show ?thesis by (simp add: exponent64_def)
next
  case False
  have "e \<le> 0"
  proof (rule ccontr)
    assume "\<not> e \<le> 0"
    then have "0 \<le> e" by simp
    then have "(2::real) powi 0 \<le> 2 powi e"
      by (intro power_int_increasing) simp_all
    with assms(1) False show False by simp
  qed
  with assms have "search_down 1022 0 a = e"
    by (intro search_down_correct) simp_all
  with False show ?thesis by (simp add: exponent64_def)
qed

lemma exponent64_subnormal:
  assumes "a < 2 powi (- 1022)"
  shows "exponent64 a = - 1022"
proof -
  have "(2::real) powi (- 1022) \<le> 2 powi 0"
    by (intro power_int_increasing) simp_all
  with assms have "\<not> 1 \<le> a" by simp
  moreover from assms have "search_down 1022 0 a = 0 - int 1022"
    by (intro search_down_clamp) simp
  ultimately show ?thesis by (simp add: exponent64_def)
qed

lemma rne64_at:
  assumes "2 powi e \<le> \<bar>z\<bar>" and "\<bar>z\<bar> < 2 powi (e + 1)" and "- 1022 \<le> e" and "e \<le> 1023"
  shows "rne64 z = of_int (round_half_even (z / 2 powi (e - 52))) * 2 powi (e - 52)"
  using exponent64_eq [OF assms] by (simp add: rne64_def Let_def)

text \<open>The roundings that the examples below need.\<close>

lemma round64_0: "round64 0 = Finite 0"
proof -
  have "exponent64 \<bar>0\<bar> = - 1022" by (rule exponent64_subnormal) simp
  then show ?thesis by (simp add: round64_def rne64_def round_half_even_def)
qed

lemma round64_1: "round64 1 = Finite 1"
proof -
  have "rne64 1 = 1"
    by (subst rne64_at [where e = 0]) (simp_all add: round_half_even_def)
  then show ?thesis by (simp add: round64_def)
qed

lemma round64_20: "round64 20 = Finite 20"
proof -
  have "rne64 20 = 20"
    by (subst rne64_at [where e = 4]) (simp_all add: round_half_even_def)
  then show ?thesis by (simp add: round64_def)
qed

lemma round64_50: "round64 50 = Finite 50"
proof -
  have "rne64 50 = 50"
    by (subst rne64_at [where e = 5]) (simp_all add: round_half_even_def)
  then show ?thesis by (simp add: round64_def)
qed

lemma round64_2000: "round64 2000 = Finite 2000"
proof -
  have "rne64 2000 = 2000"
    by (subst rne64_at [where e = 10]) (simp_all add: round_half_even_def)
  then show ?thesis by (simp add: round64_def)
qed

lemma round64_2020: "round64 2020 = Finite 2020"
proof -
  have "rne64 2020 = 2020"
    by (subst rne64_at [where e = 10]) (simp_all add: round_half_even_def)
  then show ?thesis by (simp add: round64_def)
qed

lemma round64_1e16: "round64 10000000000000000 = Finite 10000000000000000"
proof -
  have "rne64 10000000000000000 = 10000000000000000"
    by (subst rne64_at [where e = 53]) (simp_all add: round_half_even_def)
  then show ?thesis by (simp add: round64_def)
qed

text \<open>At this size the grid has steps of 2, and the tie goes to the even multiple.\<close>

lemma round64_1e16_plus_1: "round64 10000000000000001 = Finite 10000000000000000"
proof -
  have "rne64 10000000000000001 = 10000000000000000"
    by (subst rne64_at [where e = 53]) (simp_all add: round_half_even_def)
  then show ?thesis by (simp add: round64_def)
qed

lemma updateBalance64_result:
  "updateBalance64 nowf lmt s =
     (fmin64 (maxBalance64 lmt)
        (add64 (balance64 s) (mul64 (bytesPerSecond64 lmt) (sub64 nowf (lastTime64 s)))),
      \<lparr>lastTime64 = nowf,
       balance64 = fmin64 (maxBalance64 lmt)
        (add64 (balance64 s) (mul64 (bytesPerSecond64 lmt) (sub64 nowf (lastTime64 s))))\<rparr>)"
  by (simp add: updateBalance64_def Let_def)

lemma gate64_result:
  "gate64 nowf lmt bytes s =
     (le64 bytes (fst (updateBalance64 nowf lmt s)),
      \<lparr>lastTime64 = nowf,
       balance64 = fmax64 (minBalance64 lmt) (sub64 (fst (updateBalance64 nowf lmt s)) bytes)\<rparr>)"
  by (simp add: gate64_def updateBalance64_result Let_def)

text \<open>
  C3. After \<open>gate\<close> the stored balance is \<open>fmax\<close> of the floor and the binary64
  difference of the refreshed balance and \<open>bytes\<close>, whichever verdict was returned.
  When these are finite and the subtraction does not round, it is the larger of the
  floor and the refreshed balance less \<open>bytes\<close>.
\<close>

theorem gate64_debit_always_applied:
  "balance64 (snd (gate64 nowf lmt bytes s)) =
     fmax64 (minBalance64 lmt) (sub64 (fst (updateBalance64 nowf lmt s)) bytes) \<and>
   (fst (updateBalance64 nowf lmt s) = Finite b \<and> bytes = Finite y \<and>
    minBalance64 lmt = Finite m \<and> exact64 (b - y) \<longrightarrow>
      balance64 (snd (gate64 nowf lmt bytes s)) = Finite (max m (b - y)))"
  by (auto simp add: gate64_result exact64_def max_def)

text \<open>A refreshed balance of 50 gated with 30 bytes: the difference 20 is exact.\<close>

theorem gate64_debit_witness:
  "fst (updateBalance64 (Finite 1) scenario_limit64
          \<lparr>lastTime64 = Finite 1, balance64 = Finite 50\<rparr>) = Finite 50 \<and>
   minBalance64 scenario_limit64 = Finite (- 500) \<and>
   exact64 (50 - 30) \<and>
   gate64 (Finite 1) scenario_limit64 (Finite 30)
       \<lparr>lastTime64 = Finite 1, balance64 = Finite 50\<rparr> =
     (True, \<lparr>lastTime64 = Finite 1, balance64 = Finite 20\<rparr>)"
proof -
  have r: "fst (updateBalance64 (Finite 1) scenario_limit64
          \<lparr>lastTime64 = Finite 1, balance64 = Finite 50\<rparr>) = Finite 50"
    by (simp add: updateBalance64_result scenario_limit64_def round64_0 round64_50)
  have m: "minBalance64 scenario_limit64 = Finite (- 500)"
    by (simp add: scenario_limit64_def)
  have e: "exact64 (50 - 30)"
    by (simp add: exact64_def round64_20)
  from gate64_debit_always_applied
    [where nowf = "Finite 1" and lmt = scenario_limit64 and bytes = "Finite 30"
       and s = "\<lparr>lastTime64 = Finite 1, balance64 = Finite 50\<rparr>"
       and b = 50 and y = 30 and m = "- 500"] r m e
  show ?thesis by (simp add: gate64_result)
qed

text \<open>A refreshed balance of \<open>10^16\<close> gated with -1 bytes: the difference \<open>10^16 + 1\<close>
  is not a binary64 number, and the balance stays \<open>10^16\<close>.\<close>

theorem gate64_debit_counterexample:
  "fst (updateBalance64 (Finite 0)
          \<lparr>bytesPerSecond64 = Finite 100, maxBalance64 = Finite 10000000000000000,
           minBalance64 = Finite (- 500)\<rparr>
          \<lparr>lastTime64 = Finite 0, balance64 = Finite 10000000000000000\<rparr>) =
     Finite 10000000000000000 \<and>
   balance64 (snd (gate64 (Finite 0)
          \<lparr>bytesPerSecond64 = Finite 100, maxBalance64 = Finite 10000000000000000,
           minBalance64 = Finite (- 500)\<rparr>
          (Finite (- 1)) \<lparr>lastTime64 = Finite 0, balance64 = Finite 10000000000000000\<rparr>)) =
     Finite 10000000000000000 \<and>
   max (- 500) (10000000000000000 - (- 1)) = (10000000000000001::real) \<and>
   balance64 (snd (gate64 (Finite 0)
          \<lparr>bytesPerSecond64 = Finite 100, maxBalance64 = Finite 10000000000000000,
           minBalance64 = Finite (- 500)\<rparr>
          (Finite (- 1)) \<lparr>lastTime64 = Finite 0, balance64 = Finite 10000000000000000\<rparr>)) \<noteq>
     Finite (max (- 500) (10000000000000000 - (- 1)))"
  by (simp add: gate64_result updateBalance64_result round64_0 round64_1e16
      round64_1e16_plus_1)

text \<open>
  C4. \<open>updateBalance\<close> stores the clock reading as the last update time, stores as the
  balance \<open>fmin\<close> of the ceiling and the binary64 sum of the old balance and the
  binary64 product of the rate and the binary64 elapsed time, and returns the stored
  balance. When all of these are finite and none of the three operations rounds, the
  stored balance is the smaller of the ceiling and the old balance plus rate times
  elapsed time, and for a non-negative elapsed time it has grown by the smaller of rate
  times elapsed time and the room left under the ceiling.
\<close>

theorem updateBalance64_accrual:
  "snd (updateBalance64 nowf lmt s) =
     \<lparr>lastTime64 = nowf,
      balance64 = fmin64 (maxBalance64 lmt)
        (add64 (balance64 s) (mul64 (bytesPerSecond64 lmt) (sub64 nowf (lastTime64 s))))\<rparr> \<and>
   fst (updateBalance64 nowf lmt s) = balance64 (snd (updateBalance64 nowf lmt s)) \<and>
   (nowf = Finite t \<and> lastTime64 s = Finite lt \<and> balance64 s = Finite b \<and>
    bytesPerSecond64 lmt = Finite r \<and> maxBalance64 lmt = Finite M \<and>
    exact64 (t - lt) \<and> exact64 (r * (t - lt)) \<and> exact64 (b + r * (t - lt)) \<longrightarrow>
      balance64 (snd (updateBalance64 nowf lmt s)) = Finite (min M (b + r * (t - lt))) \<and>
      (0 \<le> t - lt \<longrightarrow>
         min M (b + r * (t - lt)) - b = min (r * (t - lt)) (M - b)))"
  by (auto simp add: updateBalance64_result exact64_def min_def)

text \<open>Twenty seconds after a call that left the balance at 20, the refresh adds 980 of
  the 2000 accrued; 20, 2000 and 2020 are exact.\<close>

theorem updateBalance64_accrual_witness:
  "exact64 (21 - 1) \<and> exact64 (100 * (21 - 1)) \<and> exact64 (20 + 100 * (21 - 1)) \<and>
   (0::real) \<le> 21 - 1 \<and>
   updateBalance64 (Finite 21) scenario_limit64 \<lparr>lastTime64 = Finite 1, balance64 = Finite 20\<rparr> =
     (Finite 1000, \<lparr>lastTime64 = Finite 21, balance64 = Finite 1000\<rparr>) \<and>
   min 1000 (20 + 100 * (21 - 1)) - 20 = (980::real)"
proof -
  have e: "exact64 (21 - 1)" "exact64 (100 * (21 - 1))" "exact64 (20 + 100 * (21 - 1))"
    by (simp_all add: exact64_def round64_20 round64_2000 round64_2020)
  from updateBalance64_accrual
    [where nowf = "Finite 21" and lmt = scenario_limit64
       and s = "\<lparr>lastTime64 = Finite 1, balance64 = Finite 20\<rparr>"
       and t = 21 and lt = 1 and b = 20 and r = 100 and M = 1000] e
  show ?thesis by (simp add: scenario_limit64_def updateBalance64_result)
qed

text \<open>One second at rate 1 on a balance of \<open>10^16\<close>, far below the ceiling \<open>10^17\<close>: the
  sum \<open>10^16 + 1\<close> rounds back to \<open>10^16\<close>, and the balance has grown by 0, not by 1.\<close>

theorem updateBalance64_accrual_counterexample:
  "updateBalance64 (Finite 1)
      \<lparr>bytesPerSecond64 = Finite 1, maxBalance64 = Finite 100000000000000000,
       minBalance64 = Finite (- 500)\<rparr>
      \<lparr>lastTime64 = Finite 0, balance64 = Finite 10000000000000000\<rparr> =
     (Finite 10000000000000000,
      \<lparr>lastTime64 = Finite 1, balance64 = Finite 10000000000000000\<rparr>) \<and>
   min 100000000000000000 (10000000000000000 + 1 * (1 - 0)) = (10000000000000001::real) \<and>
   balance64 (snd (updateBalance64 (Finite 1)
      \<lparr>bytesPerSecond64 = Finite 1, maxBalance64 = Finite 100000000000000000,
       minBalance64 = Finite (- 500)\<rparr>
      \<lparr>lastTime64 = Finite 0, balance64 = Finite 10000000000000000\<rparr>)) \<noteq>
     Finite (min 100000000000000000 (10000000000000000 + 1 * (1 - 0))) \<and>
   (0::real) \<le> 1 - 0 \<and>
   (10000000000000000::real) - 10000000000000000 \<noteq>
     min (1 * (1 - 0)) (100000000000000000 - 10000000000000000)"
  by (simp add: updateBalance64_result round64_1 round64_1e16_plus_1)

end
